theory Spec2Isabelle
  imports Complex_Main
begin

section \<open>Pairwise statistical tests over the columns of a table\<close>

text \<open>
  A shallow embedding of \<^verbatim>\<open>perform_statistical_tests\<close> of
  \<^verbatim>\<open>st_basic_multiple_stats.py\<close>: the double loop over column pairs, the removal of
  missing values, the dispatch on the test type, the formatting of the p-value and the
  assembly of the result rows.
\<close>

subsection \<open>Data\<close>

text \<open>
  A pandas Series of numbers with missing entries (\<^verbatim>\<open>None\<close>/\<^verbatim>\<open>NaN\<close>) is a list of
  optional reals. A DataFrame is the ordered list of its labelled columns. The labels
  of the frame are taken to be pairwise different, as they are in a frame built from a
  dictionary: with a repeated label pandas answers \<^verbatim>\<open>data[col]\<close> with a frame instead
  of a Series, which is not modelled, so every statement below that reads a column assumes
  \<open>distinct (columns data)\<close>.
\<close>

type_synonym series = "real option list"
type_synonym dataframe = "(string \<times> series) list"

definition columns :: "dataframe \<Rightarrow> string list" where
  "columns data = map fst data"

datatype exn = UnboundLocalError | KeyError string

definition getitem :: "dataframe \<Rightarrow> string \<Rightarrow> exn + series" where
  \<comment> \<open>\<^verbatim>\<open>data[col]\<close>\<close>
  "getitem data col = (case map_of data col of None \<Rightarrow> Inl (KeyError col) | Some s \<Rightarrow> Inr s)"

definition dropna :: "series \<Rightarrow> real list" where
  \<comment> \<open>\<^verbatim>\<open>.dropna()\<close> builds a new Series and leaves the receiver as it is\<close>
  "dropna s = List.map_filter id s"

text \<open>
  A Python float is a finite number, an infinity or NaN. The finite ones are read as the
  real number they denote. The only operations the function does on a p-value are the
  comparison with \<^verbatim>\<open>0.05\<close> and the formatting. The literal \<^verbatim>\<open>0.05\<close> is the double
  nearest to \<open>1/20\<close>, which lies just above it while its predecessor lies below, so for
  every double \<open>p\<close> the test \<^verbatim>\<open>p < 0.05\<close> is the test \<open>p < 1/20\<close> on the reals.
\<close>

datatype pyfloat = Finite real | PosInf | NegInf | NaN

definition float_lt :: "pyfloat \<Rightarrow> real \<Rightarrow> bool" where
  \<comment> \<open>\<^verbatim>\<open>x < c\<close> for a finite constant \<open>c\<close>; every comparison with NaN is false\<close>
  "float_lt x c = (case x of Finite r \<Rightarrow> r < c | NegInf \<Rightarrow> True | PosInf \<Rightarrow> False | NaN \<Rightarrow> False)"

subsection \<open>Formatting with \<^verbatim>\<open>.10f\<close>\<close>

definition digit_char :: "int \<Rightarrow> char" where
  "digit_char d = ''0123456789'' ! nat (d mod 10)"

function decimal_digits :: "int \<Rightarrow> string" where
  \<comment> \<open>the digits of a number that is not negative, without leading zeros\<close>
  "decimal_digits n =
     (if n < 10 then [digit_char n] else decimal_digits (n div 10) @ [digit_char (n mod 10)])"
  by pat_completeness auto
termination
  by (relation "measure nat") auto

declare decimal_digits.simps [simp del]

primrec fixed_digits :: "nat \<Rightarrow> int \<Rightarrow> string" where
  \<comment> \<open>the last \<open>k\<close> digits, with leading zeros\<close>
  "fixed_digits 0 n = []"
| "fixed_digits (Suc k) n = fixed_digits k (n div 10) @ [digit_char (n mod 10)]"

definition round_half_even :: "real \<Rightarrow> int" where
  \<comment> \<open>the correctly rounded conversion of CPython: nearest, ties to the even neighbour\<close>
  "round_half_even x =
     (let f = \<lfloor>x\<rfloor>; d = x - of_int f
      in if d < 1 / 2 then f else if 1 / 2 < d then f + 1 else if even f then f else f + 1)"

definition format_10f :: "pyfloat \<Rightarrow> string" where
  \<comment> \<open>\<^verbatim>\<open>f"{p_value:.10f}"\<close>; the sign of a negative zero is not modelled\<close>
  "format_10f x =
     (case x of
        NaN \<Rightarrow> ''nan''
      | PosInf \<Rightarrow> ''inf''
      | NegInf \<Rightarrow> ''-inf''
      | Finite r \<Rightarrow>
          (let q = round_half_even (\<bar>r\<bar> * 10 ^ 10)
           in (if r < 0 then ''-'' else []) @ decimal_digits (q div 10 ^ 10) @ ''.'' @
              fixed_digits 10 (q mod 10 ^ 10)))"

subsection \<open>The library routines, the messages and the rows\<close>

text \<open>
  \<^verbatim>\<open>stats.ttest_ind(a, b, equal_var=True)\<close> and
  \<^verbatim>\<open>stats.mannwhitneyu(a, b, alternative='two-sided')\<close> belong to SciPy, not to this
  program. They are parameters of the model: each takes the two cleaned samples and either
  raises an exception (\<open>Inl\<close> of its \<^verbatim>\<open>str(e)\<close>) or returns a p-value (the statistic,
  bound to \<^verbatim>\<open>_\<close>, is dropped).
\<close>

record scipy_stats =
  ttest_ind :: "real list \<Rightarrow> real list \<Rightarrow> string + pyfloat"
  mannwhitneyu :: "real list \<Rightarrow> real list \<Rightarrow> string + pyfloat"

datatype message = Warning string | Error string

record row =
  Comparison :: string
  P_value :: string
  Significance :: string

text \<open>
  The state outside the function: the frame object it was handed, and what Streamlit
  has been told to show (\<^verbatim>\<open>st.warning\<close>, \<^verbatim>\<open>st.error\<close>). The local variables that live
  across iterations are \<^verbatim>\<open>results\<close> and \<^verbatim>\<open>p_value\<close>; the latter is unbound until
  its first assignment.
\<close>

record world =
  frame :: dataframe
  streamlit :: "message list"

record locals =
  results :: "row list"
  p_value :: "pyfloat option"

definition st_warning :: "string \<Rightarrow> world \<Rightarrow> world" where
  "st_warning m w = w\<lparr>streamlit := streamlit w @ [Warning m]\<rparr>"

definition st_error :: "string \<Rightarrow> world \<Rightarrow> world" where
  "st_error m w = w\<lparr>streamlit := streamlit w @ [Error m]\<rparr>"

definition skip_text :: "string \<Rightarrow> string \<Rightarrow> string" where
  "skip_text col1 col2 = ''Skipping '' @ col1 @ '' vs '' @ col2 @ '' - not enough data points''"

definition ttest_error_text :: "string \<Rightarrow> string \<Rightarrow> string \<Rightarrow> string" where
  "ttest_error_text col1 col2 e = ''Error in t-test between '' @ col1 @ '' and '' @ col2 @ '': '' @ e"

definition mannwhitney_error_text :: "string \<Rightarrow> string \<Rightarrow> string \<Rightarrow> string" where
  "mannwhitney_error_text col1 col2 e =
     ''Error in Mann-Whitney U test between '' @ col1 @ '' and '' @ col2 @ '': '' @ e"

definition comparison_label :: "string \<Rightarrow> string \<Rightarrow> string" where
  "comparison_label col1 col2 = col1 @ '' vs '' @ col2"

definition significance_of :: "pyfloat \<Rightarrow> string" where
  "significance_of p = (if float_lt p 0.05 then ''sig'' else ''nonsig'')"

definition make_row :: "string \<Rightarrow> string \<Rightarrow> pyfloat \<Rightarrow> row" where
  "make_row col1 col2 p =
     \<lparr>Comparison = comparison_label col1 col2, P_value = format_10f p,
      Significance = significance_of p\<rparr>"

subsection \<open>The loop body and the loops\<close>

definition format_and_append :: "string \<Rightarrow> string \<Rightarrow> locals \<times> world \<Rightarrow> (exn \<times> world) + (locals \<times> world)" where
  \<comment> \<open>lines 37 to 45: reading \<^verbatim>\<open>p_value\<close> while it is unbound raises\<close>
  "format_and_append col1 col2 = (\<lambda>(l, w).
     case p_value l of
       None \<Rightarrow> Inl (UnboundLocalError, w)
     | Some p \<Rightarrow> Inr (l\<lparr>results := results l @ [make_row col1 col2 p]\<rparr>, w))"

definition run_test :: "scipy_stats \<Rightarrow> string \<Rightarrow> string \<Rightarrow> string \<Rightarrow> real list \<Rightarrow> real list \<Rightarrow>
    locals \<times> world \<Rightarrow> (exn \<times> world) + (locals \<times> world)" where
  \<comment> \<open>lines 24 to 45; \<open>Inr\<close> without a new row is \<^verbatim>\<open>continue\<close>\<close>
  "run_test S test_type col1 col2 sample1 sample2 = (\<lambda>(l, w).
     if test_type = ''ttest'' then
       (case ttest_ind S sample1 sample2 of
          Inl e \<Rightarrow> Inr (l, st_error (ttest_error_text col1 col2 e) w)
        | Inr p \<Rightarrow> format_and_append col1 col2 (l\<lparr>p_value := Some p\<rparr>, w))
     else if test_type = ''mannwhitney'' then
       (case mannwhitneyu S sample1 sample2 of
          Inl e \<Rightarrow> Inr (l, st_error (mannwhitney_error_text col1 col2 e) w)
        | Inr p \<Rightarrow> format_and_append col1 col2 (l\<lparr>p_value := Some p\<rparr>, w))
     else format_and_append col1 col2 (l, w))"

definition body :: "scipy_stats \<Rightarrow> string \<Rightarrow> string list \<Rightarrow> nat \<Rightarrow> nat \<Rightarrow>
    locals \<times> world \<Rightarrow> (exn \<times> world) + (locals \<times> world)" where
  \<comment> \<open>lines 12 to 45, for indices inside the list of labels\<close>
  "body S test_type cols i j = (\<lambda>(l, w).
     let col1 = cols ! i; col2 = cols ! j in
     case getitem (frame w) col1 of
       Inl e \<Rightarrow> Inl (e, w)
     | Inr s1 \<Rightarrow>
        (let sample1 = dropna s1 in
         case getitem (frame w) col2 of
           Inl e \<Rightarrow> Inl (e, w)
         | Inr s2 \<Rightarrow>
            (let sample2 = dropna s2 in
             if length sample1 < 2 \<or> length sample2 < 2
             then Inr (l, st_warning (skip_text col1 col2) w)
             else run_test S test_type col1 col2 sample1 sample2 (l, w))))"

fun for_each :: "('a \<Rightarrow> 's \<Rightarrow> 'e + 's) \<Rightarrow> 'a list \<Rightarrow> 's \<Rightarrow> 'e + 's" where
  \<comment> \<open>a \<^verbatim>\<open>for\<close> loop: an exception that leaves the body leaves the loop\<close>
  "for_each f [] s = Inr s"
| "for_each f (x # xs) s = (case f x s of Inl e \<Rightarrow> Inl e | Inr s' \<Rightarrow> for_each f xs s')"

definition inner_loop :: "scipy_stats \<Rightarrow> string \<Rightarrow> string list \<Rightarrow> nat \<Rightarrow>
    locals \<times> world \<Rightarrow> (exn \<times> world) + (locals \<times> world)" where
  \<comment> \<open>\<^verbatim>\<open>for j in range(i + 1, len(columns))\<close>\<close>
  "inner_loop S test_type cols i = for_each (body S test_type cols i) [i + 1 ..< length cols]"

definition outer_loop :: "scipy_stats \<Rightarrow> string \<Rightarrow> string list \<Rightarrow>
    locals \<times> world \<Rightarrow> (exn \<times> world) + (locals \<times> world)" where
  \<comment> \<open>\<^verbatim>\<open>for i in range(len(columns))\<close>\<close>
  "outer_loop S test_type cols = for_each (inner_loop S test_type cols) [0 ..< length cols]"

definition perform_statistical_tests :: "scipy_stats \<Rightarrow> string \<Rightarrow> world \<Rightarrow> (exn + row list) \<times> world" where
  \<comment> \<open>the frame of the world is the argument \<^verbatim>\<open>data\<close>; the rows are those of the returned table\<close>
  "perform_statistical_tests S test_type w =
     (case outer_loop S test_type (columns (frame w)) (\<lparr>results = [], p_value = None\<rparr>, w) of
        Inl (e, w') \<Rightarrow> (Inl e, w')
      | Inr (l, w') \<Rightarrow> (Inr (results l), w'))"

subsection \<open>Vocabulary for the statements\<close>

text \<open>
  The pairs of indices in the order of the two loops; the cleaned sample of the column at
  an index; whether a pair is skipped for lack of data; the routine the test type selects;
  the p-value a pair gets, if any; the row and the messages a pair contributes.
\<close>

definition index_pairs :: "nat \<Rightarrow> (nat \<times> nat) list" where
  "index_pairs n = concat (map (\<lambda>i. map (Pair i) [i + 1 ..< n]) [0 ..< n])"

definition sample :: "dataframe \<Rightarrow> nat \<Rightarrow> real list" where
  "sample data i = dropna (snd (data ! i))"

definition insufficient :: "dataframe \<Rightarrow> nat \<times> nat \<Rightarrow> bool" where
  "insufficient data = (\<lambda>(i, j). length (sample data i) < 2 \<or> length (sample data j) < 2)"

definition routine :: "scipy_stats \<Rightarrow> string \<Rightarrow> real list \<Rightarrow> real list \<Rightarrow> string + pyfloat" where
  "routine S test_type = (if test_type = ''ttest'' then ttest_ind S else mannwhitneyu S)"

definition error_text :: "string \<Rightarrow> string \<Rightarrow> string \<Rightarrow> string \<Rightarrow> string" where
  "error_text test_type = (if test_type = ''ttest'' then ttest_error_text else mannwhitney_error_text)"

definition computed :: "scipy_stats \<Rightarrow> string \<Rightarrow> dataframe \<Rightarrow> nat \<times> nat \<Rightarrow> pyfloat option" where
  "computed S test_type data = (\<lambda>(i, j).
     if insufficient data (i, j) then None
     else (case routine S test_type (sample data i) (sample data j) of
             Inl e \<Rightarrow> None | Inr p \<Rightarrow> Some p))"

definition pair_row :: "scipy_stats \<Rightarrow> string \<Rightarrow> dataframe \<Rightarrow> nat \<times> nat \<Rightarrow> row option" where
  "pair_row S test_type data = (\<lambda>(i, j).
     map_option (make_row (columns data ! i) (columns data ! j)) (computed S test_type data (i, j)))"

definition pair_messages :: "scipy_stats \<Rightarrow> string \<Rightarrow> dataframe \<Rightarrow> nat \<times> nat \<Rightarrow> message list" where
  "pair_messages S test_type data = (\<lambda>(i, j).
     if insufficient data (i, j) then [Warning (skip_text (columns data ! i) (columns data ! j))]
     else (case routine S test_type (sample data i) (sample data j) of
             Inl e \<Rightarrow> [Error (error_text test_type (columns data ! i) (columns data ! j) e)]
           | Inr p \<Rightarrow> []))"

definition skip_warning :: "dataframe \<Rightarrow> nat \<times> nat \<Rightarrow> message" where
  "skip_warning data = (\<lambda>(i, j). Warning (skip_text (columns data ! i) (columns data ! j)))"

definition pair_label :: "dataframe \<Rightarrow> nat \<times> nat \<Rightarrow> string" where
  "pair_label data = (\<lambda>(i, j). comparison_label (columns data ! i) (columns data ! j))"

definition lex_before :: "nat \<times> nat \<Rightarrow> nat \<times> nat \<Rightarrow> bool" where
  "lex_before = (\<lambda>(i, j) (i', j'). i < i' \<or> (i = i' \<and> j < j'))"

definition messages_added :: "world \<Rightarrow> world \<Rightarrow> bool" where
  \<comment> \<open>the second world is the first with more messages shown and nothing else changed\<close>
  "messages_added w w' = (\<exists>ms. w' = w\<lparr>streamlit := streamlit w @ ms\<rparr>)"

text \<open>Reading a fixed-point string back: the value of a run of digits, and of the two runs around the point.\<close>

definition is_digit :: "char \<Rightarrow> bool" where
  "is_digit c = (c \<in> set ''0123456789'')"

definition digit_value :: "char \<Rightarrow> int" where
  "digit_value c = of_char c - 48"

definition val_digits :: "string \<Rightarrow> int" where
  "val_digits s = foldl (\<lambda>a c. 10 * a + digit_value c) 0 s"

definition fixed_point_value :: "string \<Rightarrow> string \<Rightarrow> real" where
  "fixed_point_value ip fp = of_int (val_digits ip) + of_int (val_digits fp) / 10 ^ length fp"

text \<open>Concrete inputs on which the statements are exercised: a stand-in for the library that
  answers NaN for two equal samples, raises for a first sample that starts with 0, and
  otherwise answers a fixed p-value; a frame of five columns, one of them with a single
  value; a frame of one column.\<close>

definition demo_stats :: scipy_stats where
  "demo_stats =
     \<lparr>ttest_ind = (\<lambda>a b. if a = b then Inr NaN else if hd a = 0 then Inl ''boom'' else Inr (Finite (1 / 100))),
      mannwhitneyu = (\<lambda>a b. Inr (Finite (1 / 3)))\<rparr>"

definition demo_world :: world where
  "demo_world =
     \<lparr>frame = [(''A'', [Some 1, Some 2, None]), (''B'', [Some 1, None, None]),
                (''C'', [Some 1, Some 2, Some 3]), (''D'', [Some 0, None, Some 3]),
                (''E'', [Some 1, Some 2, Some 3])],
      streamlit = []\<rparr>"

definition one_column_world :: world where
  "one_column_world = \<lparr>frame = [(''A'', [Some 1, Some 2, Some 3])], streamlit = []\<rparr>"

text \<open>Two more frames: two columns of three values each, and the two constant columns
  \<^verbatim>\<open>A=[1,1,1,1]\<close>, \<^verbatim>\<open>B=[1,1,1,1]\<close>.\<close>

definition two_column_world :: world where
  "two_column_world = \<lparr>frame = [(''A'', [Some 1, Some 2, Some 3]), (''B'', [Some 2, Some 3, Some 5])], streamlit = []\<rparr>"

definition constant_world :: world where
  "constant_world = \<lparr>frame = [(''A'', [Some 1, Some 1, Some 1, Some 1]), (''B'', [Some 1, Some 1, Some 1, Some 1])], streamlit = []\<rparr>"

text \<open>Two runs are compared through a relation on their states: the same local variables
  and the same frame, whatever has been shown so far. \<open>world_of\<close> is the world a loop
  leaves, whether it ended or raised.\<close>

definition same_frame :: "locals \<times> world \<Rightarrow> locals \<times> world \<Rightarrow> bool" where
  "same_frame = (\<lambda>(l1, w1) (l2, w2). l1 = l2 \<and> frame w1 = frame w2)"

definition same_raise :: "exn \<times> world \<Rightarrow> exn \<times> world \<Rightarrow> bool" where
  "same_raise = (\<lambda>(e1, w1) (e2, w2). e1 = e2 \<and> frame w1 = frame w2)"

definition world_of :: "(exn \<times> world) + (locals \<times> world) \<Rightarrow> world" where
  "world_of r = (case r of Inl (e, w) \<Rightarrow> w | Inr (l, w) \<Rightarrow> w)"

text \<open>
  Modelled on the library: on two samples without variance and with equal means the t
  statistic of \<^verbatim>\<open>ttest_ind\<close> is \<open>0/0\<close>, and the routine answers NaN without raising. The
  routine is left as given on every other pair of samples.
\<close>

definition zero_variance :: "real list \<Rightarrow> bool" where
  "zero_variance xs = list_all (\<lambda>x. x = hd xs) xs"

definition nan_on_zero_variance :: "scipy_stats \<Rightarrow> scipy_stats" where
  "nan_on_zero_variance S =
     S\<lparr>ttest_ind := (\<lambda>a b. if zero_variance a \<and> zero_variance b \<and> hd a = hd b then Inr NaN
                             else ttest_ind S a b)\<rparr>"

subsection \<open>The loops as one pass over the index pairs\<close>

lemma for_each_append:
  "for_each f (xs @ ys) s = (case for_each f xs s of Inl e \<Rightarrow> Inl e | Inr s' \<Rightarrow> for_each f ys s')"
  by (induction xs arbitrary: s) (auto split: sum.splits)

lemma for_each_map: "for_each f (map g xs) s = for_each (\<lambda>x. f (g x)) xs s"
  by (induction xs arbitrary: s) (auto split: sum.splits)

lemma for_each_nested:
  "for_each (\<lambda>x. for_each (g x) (h x)) xs s =
   for_each (\<lambda>(x, y). g x y) (concat (map (\<lambda>x. map (Pair x) (h x)) xs)) s"
  by (induction xs arbitrary: s) (auto simp: for_each_append for_each_map split: sum.splits)

lemma outer_loop_flat:
  "outer_loop S test_type cols s =
   for_each (\<lambda>(i, j). body S test_type cols i j) (index_pairs (length cols)) s"
  unfolding outer_loop_def inner_loop_def index_pairs_def
  by (rule for_each_nested)

lemma index_pairs_set: "set (index_pairs n) = {(i, j). i < j \<and> j < n}"
  by (force simp: index_pairs_def)

lemma column_name: "i < length data \<Longrightarrow> columns data ! i = fst (data ! i)"
  by (simp add: columns_def)

lemma getitem_nth:
  assumes "distinct (columns data)" "i < length data"
  shows "getitem data (columns data ! i) = Inr (snd (data ! i))"
proof -
  have "(fst (data ! i), snd (data ! i)) \<in> set data"
    using assms(2) by simp
  then have "map_of data (fst (data ! i)) = Some (snd (data ! i))"
    using assms(1) unfolding columns_def by (rule map_of_is_SomeI[rotated])
  then show ?thesis
    using assms(2) by (simp add: getitem_def columns_def)
qed

lemma body_valid:
  assumes tt: "test_type = ''ttest'' \<or> test_type = ''mannwhitney''"
    and d: "distinct (columns data)" and i: "i < length data" and j: "j < length data"
    and w: "frame w = data"
  shows "\<exists>l' w'. body S test_type (columns data) i j (l, w) = Inr (l', w') \<and>
           results l' = results l @ (case pair_row S test_type data (i, j) of None \<Rightarrow> [] | Some r \<Rightarrow> [r]) \<and>
           frame w' = data \<and>
           streamlit w' = streamlit w @ pair_messages S test_type data (i, j)"
  using tt w
  by (auto simp: body_def getitem_nth[OF d i] getitem_nth[OF d j] Let_def run_test_def
      format_and_append_def st_warning_def st_error_def pair_row_def pair_messages_def
      computed_def insufficient_def sample_def routine_def error_text_def
      split: sum.splits)

lemma for_each_valid:
  assumes step: "\<And>x l w. x \<in> set xs \<Longrightarrow> frame w = data \<Longrightarrow>
      \<exists>l' w'. f x (l, w) = Inr (l', w') \<and>
        results l' = results l @ (case R x of None \<Rightarrow> [] | Some r \<Rightarrow> [r]) \<and>
        frame w' = data \<and> streamlit w' = streamlit w @ M x"
    and w: "frame w = data"
  shows "\<exists>l' w'. for_each f xs (l, w) = Inr (l', w') \<and>
           results l' = results l @ List.map_filter R xs \<and>
           frame w' = data \<and> streamlit w' = streamlit w @ concat (map M xs)"
  using assms
proof (induction xs arbitrary: l w)
  case Nil
  then show ?case by (simp add: List.map_filter_simps)
next
  case (Cons x xs)
  obtain l1 w1 where 1: "f x (l, w) = Inr (l1, w1)"
      "results l1 = results l @ (case R x of None \<Rightarrow> [] | Some r \<Rightarrow> [r])"
      "frame w1 = data" "streamlit w1 = streamlit w @ M x"
    using Cons.prems(1)[of x w l] Cons.prems(2) by auto
  obtain l2 w2 where 2: "for_each f xs (l1, w1) = Inr (l2, w2)"
      "results l2 = results l1 @ List.map_filter R xs"
      "frame w2 = data" "streamlit w2 = streamlit w1 @ concat (map M xs)"
    using Cons.IH[of w1 l1] Cons.prems(1) 1(3) by auto
  show ?case
    using 1 2 by (auto simp: List.map_filter_simps split: option.splits)
qed

lemma perform_valid:
  assumes tt: "test_type = ''ttest'' \<or> test_type = ''mannwhitney''"
    and d: "distinct (columns (frame w))"
  shows "perform_statistical_tests S test_type w =
           (Inr (List.map_filter (pair_row S test_type (frame w)) (index_pairs (length (frame w)))),
            w\<lparr>streamlit := streamlit w @
                 concat (map (pair_messages S test_type (frame w)) (index_pairs (length (frame w))))\<rparr>)"
proof -
  let ?data = "frame w"
  let ?n = "length ?data"
  let ?l0 = "\<lparr>results = [], p_value = None\<rparr>"
  have n: "length (columns ?data) = ?n" by (simp add: columns_def)
  have "\<exists>l' w'. for_each (\<lambda>(i, j). body S test_type (columns ?data) i j) (index_pairs ?n) (?l0, w) = Inr (l', w') \<and>
           results l' = results ?l0 @ List.map_filter (pair_row S test_type ?data) (index_pairs ?n) \<and>
           frame w' = ?data \<and>
           streamlit w' = streamlit w @ concat (map (pair_messages S test_type ?data) (index_pairs ?n))"
  proof (rule for_each_valid)
    fix x l and w' :: world
    assume x: "x \<in> set (index_pairs ?n)" and f: "frame w' = ?data"
    obtain i j where ij: "x = (i, j)" by (cases x)
    with x have "i < ?n" "j < ?n" by (auto simp: index_pairs_set)
    from body_valid[OF tt d this f, of S l]
    show "\<exists>l' w'a. (case x of (i, j) \<Rightarrow> body S test_type (columns ?data) i j) (l, w') = Inr (l', w'a) \<and>
        results l' = results l @ (case pair_row S test_type ?data x of None \<Rightarrow> [] | Some r \<Rightarrow> [r]) \<and>
        frame w'a = ?data \<and> streamlit w'a = streamlit w' @ pair_messages S test_type ?data x"
      by (simp add: ij)
  qed simp
  then obtain l' w' where r: "outer_loop S test_type (columns ?data) (?l0, w) = Inr (l', w')"
      "results l' = List.map_filter (pair_row S test_type ?data) (index_pairs ?n)"
      "frame w' = ?data"
      "streamlit w' = streamlit w @ concat (map (pair_messages S test_type ?data) (index_pairs ?n))"
    by (auto simp: outer_loop_flat n)
  have "w' = w\<lparr>streamlit := streamlit w @ concat (map (pair_messages S test_type ?data) (index_pairs ?n))\<rparr>"
    using r(3,4) by simp
  then show ?thesis
    using r(1,2) by (simp add: perform_statistical_tests_def)
qed

subsection \<open>Facts about the index pairs and about skipped pairs\<close>

lemma map_filter_set: "set (List.map_filter f xs) = {y. \<exists>x\<in>set xs. f x = Some y}"
  by (induction xs) (auto simp: List.map_filter_simps split: option.splits)

lemma map_filter_filter:
  "(\<And>x. x \<in> set xs \<Longrightarrow> \<not> P x \<Longrightarrow> f x = None) \<Longrightarrow>
   List.map_filter f (filter P xs) = List.map_filter f xs"
  by (induction xs) (auto simp: List.map_filter_simps split: option.splits)

lemma map_map_filter:
  "map g (List.map_filter f xs) = map (\<lambda>x. g (the (f x))) (filter (\<lambda>x. f x \<noteq> None) xs)"
  by (induction xs) (auto simp: List.map_filter_simps split: option.splits)

lemma index_pairs_sorted: "sorted_wrt lex_before (index_pairs n)"
proof -
  have "sorted_wrt (<) is \<Longrightarrow>
        sorted_wrt lex_before (concat (map (\<lambda>i. map (Pair i) [i + 1 ..< n]) is))" for "is"
  proof (induction "is")
    case Nil
    then show ?case by simp
  next
    case (Cons i "is")
    have "sorted_wrt lex_before (map (Pair i) [i + 1 ..< n])"
      by (simp add: sorted_wrt_map lex_before_def)
    with Cons show ?case
      by (auto simp: sorted_wrt_append lex_before_def)
  qed
  then show ?thesis
    by (simp add: index_pairs_def)
qed

lemma insufficient_no_row: "insufficient data p \<Longrightarrow> pair_row S test_type data p = None"
  by (cases p) (simp add: pair_row_def computed_def)

lemma insufficient_warned: "insufficient data p \<Longrightarrow> pair_messages S test_type data p = [skip_warning data p]"
  by (cases p) (simp add: pair_messages_def skip_warning_def)

subsection \<open>The table and the messages for the two test types\<close>

text \<open>
  C8: with no column or with a single column there is no pair: the table returned is
  empty and nothing is shown, neither a skip warning nor an error, whatever the test type.
\<close>

theorem no_pairs_empty_table:
  "length (frame w) \<le> 1 \<Longrightarrow> perform_statistical_tests S test_type w = (Inr [], w)"
proof -
  assume "length (frame w) \<le> 1"
  then have "index_pairs (length (columns (frame w))) = []"
    by (cases "frame w") (auto simp: index_pairs_def columns_def)
  then show ?thesis
    by (simp add: perform_statistical_tests_def outer_loop_flat)
qed

theorem no_pairs_empty_table_witness:
  "length (frame one_column_world) \<le> 1 \<and>
   perform_statistical_tests demo_stats ''ttest'' one_column_world = (Inr [], one_column_world)"
proof -
  have h: "length (frame one_column_world) \<le> 1"
    by (simp add: one_column_world_def)
  show ?thesis
    using h no_pairs_empty_table [OF h, of demo_stats "''ttest''"] by simp
qed

text \<open>
  C4: for either test type, the table is computed from the index pairs with the pairs
  removed in which one cleaned column has fewer than two values: such a pair gives no row,
  its skip warning is among the messages shown, and the run goes on to the pairs after it
  and returns.
\<close>

theorem insufficient_pairs_skipped:
  assumes "test_type = ''ttest'' \<or> test_type = ''mannwhitney''"
    and "distinct (columns (frame w))"
  shows "\<exists>w'. perform_statistical_tests S test_type w =
           (Inr (List.map_filter (pair_row S test_type (frame w))
                   (filter (\<lambda>p. \<not> insufficient (frame w) p) (index_pairs (length (frame w))))), w') \<and>
         (\<forall>p\<in>set (index_pairs (length (frame w))). insufficient (frame w) p \<longrightarrow>
            pair_row S test_type (frame w) p = None \<and> skip_warning (frame w) p \<in> set (streamlit w'))"
proof -
  let ?ps = "index_pairs (length (frame w))"
  have "List.map_filter (pair_row S test_type (frame w)) (filter (\<lambda>p. \<not> insufficient (frame w) p) ?ps)
        = List.map_filter (pair_row S test_type (frame w)) ?ps"
    by (rule map_filter_filter) (simp add: insufficient_no_row)
  moreover have "skip_warning (frame w) p \<in> set (concat (map (pair_messages S test_type (frame w)) ?ps))"
    if "p \<in> set ?ps" "insufficient (frame w) p" for p
    using that insufficient_warned[of "frame w" p S test_type] by force
  ultimately show ?thesis
    unfolding perform_valid[OF assms] by (simp add: insufficient_no_row)
qed

theorem insufficient_pairs_skipped_witness:
  "(''ttest'' = ''ttest'' \<or> ''ttest'' = ''mannwhitney'') \<and> distinct (columns (frame demo_world)) \<and>
   insufficient (frame demo_world) (0, 1) \<and> (0, 1) \<in> set (index_pairs (length (frame demo_world))) \<and>
   (\<exists>w'. perform_statistical_tests demo_stats ''ttest'' demo_world =
           (Inr (List.map_filter (pair_row demo_stats ''ttest'' (frame demo_world))
                   (filter (\<lambda>p. \<not> insufficient (frame demo_world) p) (index_pairs (length (frame demo_world))))), w') \<and>
         (\<forall>p\<in>set (index_pairs (length (frame demo_world))). insufficient (frame demo_world) p \<longrightarrow>
            pair_row demo_stats ''ttest'' (frame demo_world) p = None \<and> skip_warning (frame demo_world) p \<in> set (streamlit w')))"
proof -
  have h1: "''ttest'' = ''ttest'' \<or> ''ttest'' = ''mannwhitney''" by simp
  have h2: "distinct (columns (frame demo_world))"
    by (simp add: demo_world_def columns_def)
  have h3: "insufficient (frame demo_world) (0, 1)"
    by (simp add: demo_world_def insufficient_def sample_def dropna_def List.map_filter_simps)
  have h4: "(0, 1) \<in> set (index_pairs (length (frame demo_world)))"
    by (simp add: index_pairs_set demo_world_def)
  show ?thesis
    using h1 h2 h3 h4 insufficient_pairs_skipped [OF h1 h2, of demo_stats] by blast
qed

lemma computed_row: "computed S test_type data (i, j) = Some p \<Longrightarrow>
    pair_row S test_type data (i, j) = Some (make_row (columns data ! i) (columns data ! j) p)"
  by (simp add: pair_row_def)

lemma row_origin:
  assumes "test_type = ''ttest'' \<or> test_type = ''mannwhitney''"
    and "distinct (columns (frame w))"
    and "fst (perform_statistical_tests S test_type w) = Inr rows"
    and "r \<in> set rows"
  shows "\<exists>i j p. i < j \<and> j < length (frame w) \<and> computed S test_type (frame w) (i, j) = Some p \<and>
           r = make_row (columns (frame w) ! i) (columns (frame w) ! j) p"
proof -
  have "rows = List.map_filter (pair_row S test_type (frame w)) (index_pairs (length (frame w)))"
    using assms(3) unfolding perform_valid[OF assms(1,2)] by simp
  with assms(4) obtain x where x: "x \<in> set (index_pairs (length (frame w)))"
      "pair_row S test_type (frame w) x = Some r"
    by (auto simp: map_filter_set)
  obtain i j where ij: "x = (i, j)" by (cases x)
  from x(2) obtain p where "computed S test_type (frame w) (i, j) = Some p"
      "r = make_row (columns (frame w) ! i) (columns (frame w) ! j) p"
    by (auto simp: pair_row_def ij)
  moreover have "i < j" "j < length (frame w)"
    using x(1) by (auto simp: ij index_pairs_set)
  ultimately show ?thesis by blast
qed

text \<open>
  C5: the index pairs are exactly the pairs \<open>(i, j)\<close> with \<open>i < j\<close> below the number of
  columns, listed with \<open>i\<close> ascending and, for equal \<open>i\<close>, \<open>j\<close> ascending; the labels
  of the rows of the table are, in that order, the texts \<^verbatim>\<open>"<name_i> vs <name_j>"\<close> built
  from the names of the two columns of each pair that got a p-value. The values of the
  columns decide only which pairs are left out.
\<close>

theorem rows_in_enumeration_order:
  assumes "test_type = ''ttest'' \<or> test_type = ''mannwhitney''"
    and "distinct (columns (frame w))"
  shows "\<exists>rows w'. perform_statistical_tests S test_type w = (Inr rows, w') \<and>
           map Comparison rows =
             map (\<lambda>(i, j). fst (frame w ! i) @ '' vs '' @ fst (frame w ! j))
               (filter (\<lambda>p. computed S test_type (frame w) p \<noteq> None) (index_pairs (length (frame w)))) \<and>
           set (index_pairs (length (frame w))) = {(i, j). i < j \<and> j < length (frame w)} \<and>
           sorted_wrt lex_before (index_pairs (length (frame w)))"
proof -
  let ?ps = "index_pairs (length (frame w))"
  have a: "(pair_row S test_type (frame w) p \<noteq> None) = (computed S test_type (frame w) p \<noteq> None)" for p
    by (cases p) (simp add: pair_row_def)
  have b: "Comparison (the (pair_row S test_type (frame w) p)) =
           (case p of (i, j) \<Rightarrow> fst (frame w ! i) @ '' vs '' @ fst (frame w ! j))"
    if "computed S test_type (frame w) p \<noteq> None" and "p \<in> set ?ps" for p
  proof -
    obtain i j where p: "p = (i, j)" by (cases p)
    with that(2) have "i < length (frame w)" "j < length (frame w)"
      by (auto simp: index_pairs_set)
    then show ?thesis
      using that(1) by (auto simp: p pair_row_def make_row_def comparison_label_def column_name)
  qed
  have "map Comparison (List.map_filter (pair_row S test_type (frame w)) ?ps) =
        map (\<lambda>(i, j). fst (frame w ! i) @ '' vs '' @ fst (frame w ! j))
          (filter (\<lambda>p. computed S test_type (frame w) p \<noteq> None) ?ps)"
    unfolding map_map_filter a by (rule map_cong) (simp_all add: b)
  then show ?thesis
    unfolding perform_valid[OF assms] by (simp add: index_pairs_set index_pairs_sorted)
qed

theorem rows_in_enumeration_order_witness:
  "(''mannwhitney'' = ''ttest'' \<or> ''mannwhitney'' = ''mannwhitney'') \<and>
   distinct (columns (frame demo_world)) \<and>
   (\<exists>rows w'. perform_statistical_tests demo_stats ''mannwhitney'' demo_world = (Inr rows, w') \<and>
           map Comparison rows = [''A vs C'', ''A vs D'', ''A vs E'', ''C vs D'', ''C vs E'', ''D vs E''] \<and>
           index_pairs (length (frame demo_world)) =
             [(0, 1), (0, 2), (0, 3), (0, 4), (1, 2), (1, 3), (1, 4), (2, 3), (2, 4), (3, 4)])"
proof -
  have h1: "''mannwhitney'' = ''ttest'' \<or> ''mannwhitney'' = ''mannwhitney''" by simp
  have h2: "distinct (columns (frame demo_world))"
    by (simp add: demo_world_def columns_def)
  have e: "map (\<lambda>(i, j). fst (frame demo_world ! i) @ '' vs '' @ fst (frame demo_world ! j))
               (filter (\<lambda>p. computed demo_stats ''mannwhitney'' (frame demo_world) p \<noteq> None)
                  (index_pairs (length (frame demo_world)))) =
           [''A vs C'', ''A vs D'', ''A vs E'', ''C vs D'', ''C vs E'', ''D vs E'']"
    by code_simp
  have ps: "index_pairs (length (frame demo_world)) =
      [(0, 1), (0, 2), (0, 3), (0, 4), (1, 2), (1, 3), (1, 4), (2, 3), (2, 4), (3, 4)]"
    by code_simp
  from rows_in_enumeration_order [OF h1 h2, of demo_stats]
  obtain rows w' where r: "perform_statistical_tests demo_stats ''mannwhitney'' demo_world = (Inr rows, w')"
    and l: "map Comparison rows =
             map (\<lambda>(i, j). fst (frame demo_world ! i) @ '' vs '' @ fst (frame demo_world ! j))
               (filter (\<lambda>p. computed demo_stats ''mannwhitney'' (frame demo_world) p \<noteq> None)
                  (index_pairs (length (frame demo_world))))"
    by (elim exE conjE)
  have "perform_statistical_tests demo_stats ''mannwhitney'' demo_world = (Inr rows, w') \<and>
        map Comparison rows = [''A vs C'', ''A vs D'', ''A vs E'', ''C vs D'', ''C vs E'', ''D vs E''] \<and>
        index_pairs (length (frame demo_world)) =
             [(0, 1), (0, 2), (0, 3), (0, 4), (1, 2), (1, 3), (1, 4), (2, 3), (2, 4), (3, 4)]"
    by (rule conjI [OF r conjI [OF trans [OF l e] ps]])
  then have "\<exists>rows w'. perform_statistical_tests demo_stats ''mannwhitney'' demo_world = (Inr rows, w') \<and>
        map Comparison rows = [''A vs C'', ''A vs D'', ''A vs E'', ''C vs D'', ''C vs E'', ''D vs E''] \<and>
        index_pairs (length (frame demo_world)) =
             [(0, 1), (0, 2), (0, 3), (0, 4), (1, 2), (1, 3), (1, 4), (2, 3), (2, 4), (3, 4)]"
    by (intro exI)
  then show ?thesis
    by (rule conjI [OF h1 conjI [OF h2]])
qed

text \<open>
  C6: for either test type the run returns a table, whatever the library routine does. A
  pair on which the routine raises gives no row, and the error message shown for it is
  \<^verbatim>\<open>Error in t-test between <name_i> and <name_j>: <text of the exception>\<close> (or the same
  with \<^verbatim>\<open>Mann-Whitney U test\<close>); every pair that got a p-value has its row in the table.
\<close>

theorem routine_failure_skips_pair:
  assumes "test_type = ''ttest'' \<or> test_type = ''mannwhitney''"
    and "distinct (columns (frame w))"
  shows "\<exists>rows w'. perform_statistical_tests S test_type w = (Inr rows, w') \<and>
           rows = List.map_filter (pair_row S test_type (frame w)) (index_pairs (length (frame w))) \<and>
           (\<forall>i j p. i < j \<and> j < length (frame w) \<and> computed S test_type (frame w) (i, j) = Some p \<longrightarrow>
                make_row (columns (frame w) ! i) (columns (frame w) ! j) p \<in> set rows) \<and>
           (\<forall>i j e. i < j \<and> j < length (frame w) \<and> \<not> insufficient (frame w) (i, j) \<and>
                routine S test_type (sample (frame w) i) (sample (frame w) j) = Inl e \<longrightarrow>
                pair_row S test_type (frame w) (i, j) = None \<and>
                Error ((if test_type = ''ttest'' then ''Error in t-test between ''
                        else ''Error in Mann-Whitney U test between '') @
                       fst (frame w ! i) @ '' and '' @ fst (frame w ! j) @ '': '' @ e)
                  \<in> set (streamlit w'))"
proof -
  let ?ps = "index_pairs (length (frame w))"
  have 1: "make_row (columns (frame w) ! i) (columns (frame w) ! j) p
           \<in> set (List.map_filter (pair_row S test_type (frame w)) ?ps)"
    if "i < j \<and> j < length (frame w) \<and> computed S test_type (frame w) (i, j) = Some p" for i j p
  proof -
    have "(i, j) \<in> set ?ps" using that by (simp add: index_pairs_set)
    then show ?thesis
      using computed_row[of S test_type "frame w" i j p] that
      unfolding map_filter_set by blast
  qed
  have 2: "pair_row S test_type (frame w) (i, j) = None \<and>
           Error ((if test_type = ''ttest'' then ''Error in t-test between ''
                   else ''Error in Mann-Whitney U test between '') @
                  fst (frame w ! i) @ '' and '' @ fst (frame w ! j) @ '': '' @ e)
             \<in> set (concat (map (pair_messages S test_type (frame w)) ?ps))"
    if "i < j \<and> j < length (frame w) \<and> \<not> insufficient (frame w) (i, j) \<and>
        routine S test_type (sample (frame w) i) (sample (frame w) j) = Inl e" for i j e
  proof -
    have ps: "(i, j) \<in> set ?ps" using that by (simp add: index_pairs_set)
    have n: "columns (frame w) ! i = fst (frame w ! i)" "columns (frame w) ! j = fst (frame w ! j)"
      using that by (simp_all add: column_name)
    have "pair_messages S test_type (frame w) (i, j) =
        [Error ((if test_type = ''ttest'' then ''Error in t-test between ''
                 else ''Error in Mann-Whitney U test between '') @
                fst (frame w ! i) @ '' and '' @ fst (frame w ! j) @ '': '' @ e)]"
      using that by (simp add: pair_messages_def error_text_def ttest_error_text_def
          mannwhitney_error_text_def n)
    with ps have "Error ((if test_type = ''ttest'' then ''Error in t-test between ''
                   else ''Error in Mann-Whitney U test between '') @
                  fst (frame w ! i) @ '' and '' @ fst (frame w ! j) @ '': '' @ e)
             \<in> set (concat (map (pair_messages S test_type (frame w)) ?ps))"
      by force
    moreover have "pair_row S test_type (frame w) (i, j) = None"
      using that by (simp add: pair_row_def computed_def)
    ultimately show ?thesis by simp
  qed
  show ?thesis
    unfolding perform_valid[OF assms] using 1 2 by simp
qed

theorem routine_failure_skips_pair_witness:
  "(''ttest'' = ''ttest'' \<or> ''ttest'' = ''mannwhitney'') \<and> distinct (columns (frame demo_world)) \<and>
   \<not> insufficient (frame demo_world) (3, 4) \<and>
   routine demo_stats ''ttest'' (sample (frame demo_world) 3) (sample (frame demo_world) 4) = Inl ''boom'' \<and>
   (\<exists>rows w'. perform_statistical_tests demo_stats ''ttest'' demo_world = (Inr rows, w') \<and>
      pair_row demo_stats ''ttest'' (frame demo_world) (3, 4) = None \<and>
      Error ''Error in t-test between D and E: boom'' \<in> set (streamlit w'))"
proof -
  have h1: "''ttest'' = ''ttest'' \<or> ''ttest'' = ''mannwhitney''" by simp
  have h2: "distinct (columns (frame demo_world))"
    by (simp add: demo_world_def columns_def)
  have h3: "\<not> insufficient (frame demo_world) (3, 4)"
    by (simp add: demo_world_def insufficient_def sample_def dropna_def List.map_filter_simps)
  have h4: "routine demo_stats ''ttest'' (sample (frame demo_world) 3) (sample (frame demo_world) 4) = Inl ''boom''"
    by (simp add: demo_world_def demo_stats_def routine_def sample_def dropna_def List.map_filter_simps)
  have h5: "(3::nat) < 4 \<and> 4 < length (frame demo_world)"
    by (simp add: demo_world_def)
  have t: "(if ''ttest'' = ''ttest'' then ''Error in t-test between ''
            else ''Error in Mann-Whitney U test between '') @
           fst (frame demo_world ! 3) @ '' and '' @ fst (frame demo_world ! 4) @ '': '' @ ''boom'' =
           ''Error in t-test between D and E: boom''"
    by (simp add: demo_world_def)
  from routine_failure_skips_pair [OF h1 h2, of demo_stats]
  obtain rows w' where r: "perform_statistical_tests demo_stats ''ttest'' demo_world = (Inr rows, w')"
    and f: "\<forall>i j e. i < j \<and> j < length (frame demo_world) \<and> \<not> insufficient (frame demo_world) (i, j) \<and>
                routine demo_stats ''ttest'' (sample (frame demo_world) i) (sample (frame demo_world) j) = Inl e \<longrightarrow>
                pair_row demo_stats ''ttest'' (frame demo_world) (i, j) = None \<and>
                Error ((if ''ttest'' = ''ttest'' then ''Error in t-test between ''
                        else ''Error in Mann-Whitney U test between '') @
                       fst (frame demo_world ! i) @ '' and '' @ fst (frame demo_world ! j) @ '': '' @ e)
                  \<in> set (streamlit w')"
    by (elim exE conjE)
  have pre: "(3::nat) < 4 \<and> 4 < length (frame demo_world) \<and> \<not> insufficient (frame demo_world) (3, 4) \<and>
        routine demo_stats ''ttest'' (sample (frame demo_world) 3) (sample (frame demo_world) 4) = Inl ''boom''"
    by (rule conjI [OF conjunct1 [OF h5] conjI [OF conjunct2 [OF h5] conjI [OF h3 h4]]])
  note c = f [rule_format, OF pre, unfolded t]
  have "perform_statistical_tests demo_stats ''ttest'' demo_world = (Inr rows, w') \<and>
      pair_row demo_stats ''ttest'' (frame demo_world) (3, 4) = None \<and>
      Error ''Error in t-test between D and E: boom'' \<in> set (streamlit w')"
    by (rule conjI [OF r c])
  then have "\<exists>rows w'. perform_statistical_tests demo_stats ''ttest'' demo_world = (Inr rows, w') \<and>
      pair_row demo_stats ''ttest'' (frame demo_world) (3, 4) = None \<and>
      Error ''Error in t-test between D and E: boom'' \<in> set (streamlit w')"
    by (intro exI)
  then show ?thesis
    by (rule conjI [OF h1 conjI [OF h2 conjI [OF h3 conjI [OF h4]]]])
qed

subsection \<open>What \<^verbatim>\<open>.10f\<close> prints for a number between 0 and 1\<close>

lemma digit_char_digit: "is_digit (digit_char d) \<and> digit_value (digit_char d) = d mod 10"
proof -
  have "0 \<le> d mod 10" "d mod 10 < 10" by simp_all
  then consider "d mod 10 = 0" | "d mod 10 = 1" | "d mod 10 = 2" | "d mod 10 = 3" | "d mod 10 = 4"
    | "d mod 10 = 5" | "d mod 10 = 6" | "d mod 10 = 7" | "d mod 10 = 8" | "d mod 10 = 9"
    by atomize_elim arith
  then show ?thesis
    by cases (simp_all add: digit_char_def is_digit_def digit_value_def)
qed

lemma val_digits_snoc: "val_digits (s @ [c]) = 10 * val_digits s + digit_value c"
  by (simp add: val_digits_def)

lemma fixed_digits_length: "length (fixed_digits k n) = k"
  by (induction k arbitrary: n) simp_all

lemma fixed_digits_digits: "c \<in> set (fixed_digits k n) \<Longrightarrow> is_digit c"
  by (induction k arbitrary: n) (auto simp: digit_char_digit)

lemma fixed_digits_value: "val_digits (fixed_digits k n) = n mod 10 ^ k"
proof (induction k arbitrary: n)
  case 0
  then show ?case by (simp add: val_digits_def)
next
  case (Suc k)
  have "n mod (10 * 10 ^ k) = 10 * (n div 10 mod 10 ^ k) + n mod 10"
    by (rule zmod_zmult2_eq) simp
  with Suc show ?case
    by (simp add: val_digits_snoc digit_char_digit)
qed

lemma decimal_digits_digits: "c \<in> set (decimal_digits n) \<Longrightarrow> is_digit c"
proof (induction n rule: decimal_digits.induct)
  case (1 n)
  then show ?case
    by (subst (asm) (2) decimal_digits.simps) (auto simp: digit_char_digit split: if_splits)
qed

lemma decimal_digits_nonempty: "decimal_digits n \<noteq> []"
  by (subst decimal_digits.simps) simp

lemma decimal_digits_value: "0 \<le> n \<Longrightarrow> val_digits (decimal_digits n) = n"
proof (induction n rule: decimal_digits.induct)
  case (1 n)
  show ?case
  proof (cases "n < 10")
    case True
    with 1(2) have "n mod 10 = n" by simp
    with True show ?thesis
      by (subst decimal_digits.simps) (simp add: val_digits_snoc[of "[]", simplified] digit_char_digit val_digits_def)
  next
    case False
    with 1 have "val_digits (decimal_digits (n div 10)) = n div 10" by simp
    with False show ?thesis
      by (subst decimal_digits.simps) (simp add: val_digits_snoc digit_char_digit)
  qed
qed

lemma round_half_even_near: "\<bar>of_int (round_half_even y) - y\<bar> \<le> 1 / 2"
  unfolding round_half_even_def Let_def by (auto simp: abs_real_def) linarith+

lemma round_half_even_nonneg: "0 \<le> y \<Longrightarrow> 0 \<le> round_half_even y"
  unfolding round_half_even_def Let_def by auto

lemma round_half_even_le: "y \<le> of_int N \<Longrightarrow> round_half_even y \<le> N"
proof -
  assume y: "y \<le> of_int N"
  then have f: "\<lfloor>y\<rfloor> \<le> N" by (simp add: floor_le_iff)
  show ?thesis
  proof (cases "\<lfloor>y\<rfloor> = N")
    case True
    then have "y - of_int \<lfloor>y\<rfloor> \<le> 0" using y by simp
    then show ?thesis
      using True by (simp add: round_half_even_def Let_def)
  next
    case False
    with f have "\<lfloor>y\<rfloor> + 1 \<le> N" by simp
    then show ?thesis
      using f by (simp add: round_half_even_def Let_def)
  qed
qed

lemma format_10f_unit_interval:
  assumes "0 \<le> x" "x \<le> 1"
  shows "\<exists>ip fp. format_10f (Finite x) = ip @ ''.'' @ fp \<and> ip \<noteq> [] \<and>
           (\<forall>c\<in>set (ip @ fp). is_digit c) \<and> length fp = 10 \<and>
           0 \<le> fixed_point_value ip fp \<and> fixed_point_value ip fp \<le> 1 \<and>
           \<bar>fixed_point_value ip fp - x\<bar> \<le> 1 / (2 * 10 ^ 10)"
proof -
  define q where "q = round_half_even (\<bar>x\<bar> * 10 ^ 10)"
  define ip where "ip = decimal_digits (q div 10 ^ 10)"
  define fp where "fp = fixed_digits 10 (q mod 10 ^ 10)"
  have ax: "\<bar>x\<bar> = x" using assms by simp
  have q0: "0 \<le> q" unfolding q_def using assms by (intro round_half_even_nonneg) simp
  have "x * 10 ^ 10 \<le> of_int (10 ^ 10)" using assms by simp
  then have q1: "q \<le> 10 ^ 10" unfolding q_def ax by (rule round_half_even_le)
  have fmt: "format_10f (Finite x) = ip @ ''.'' @ fp"
    using assms by (simp add: format_10f_def Let_def q_def ip_def fp_def)
  have digits: "\<forall>c\<in>set (ip @ fp). is_digit c"
    by (auto simp: ip_def fp_def decimal_digits_digits fixed_digits_digits)
  have len: "length fp = 10" by (simp add: fp_def fixed_digits_length)
  have "0 \<le> q div 10 ^ 10" using q0 by (simp add: pos_imp_zdiv_nonneg_iff)
  then have vi: "val_digits ip = q div 10 ^ 10" by (simp add: ip_def decimal_digits_value)
  have vf: "val_digits fp = q mod 10 ^ 10" by (simp add: fp_def fixed_digits_value)
  have "q = 10 ^ 10 * (q div 10 ^ 10) + q mod 10 ^ 10" by simp
  then have "(of_int q :: real) = 10 ^ 10 * of_int (q div 10 ^ 10) + of_int (q mod 10 ^ 10)"
    by (metis of_int_add of_int_mult of_int_numeral of_int_power)
  then have v: "fixed_point_value ip fp = of_int q / 10 ^ 10"
    by (simp add: fixed_point_value_def vi vf len field_simps)
  have near: "\<bar>of_int q - x * 10 ^ 10\<bar> \<le> 1 / 2"
    using round_half_even_near[of "\<bar>x\<bar> * 10 ^ 10"] by (simp add: q_def ax)
  have "\<bar>of_int q / 10 ^ 10 - x\<bar> = \<bar>of_int q - x * 10 ^ 10\<bar> / 10 ^ 10"
    by (simp add: field_simps abs_divide)
  also have "\<dots> \<le> (1 / 2) / 10 ^ 10" using near by (simp add: divide_right_mono)
  finally have acc: "\<bar>fixed_point_value ip fp - x\<bar> \<le> 1 / (2 * 10 ^ 10)" by (simp add: v)
  have "0 \<le> fixed_point_value ip fp" "fixed_point_value ip fp \<le> 1"
    using q0 q1 by (simp_all add: v)
  with fmt digits len acc decimal_digits_nonempty[of "q div 10 ^ 10"] show ?thesis
    unfolding ip_def[symmetric] by blast
qed

text \<open>
  C1, as amended: every row of the table comes from a pair of columns whose raw p-value
  \<open>p\<close> the routine returned, and its flag is the text \<^verbatim>\<open>sig\<close> if and only if \<open>p < 0.05\<close>
  on the number before formatting, and the text \<^verbatim>\<open>nonsig\<close> otherwise; a p-value equal
  to 0.05 gives \<^verbatim>\<open>nonsig\<close>. The flag texts are those of line 39 of the source.
\<close>

theorem significance_flag_threshold:
  assumes "test_type = ''ttest'' \<or> test_type = ''mannwhitney''"
    and "distinct (columns (frame w))"
    and "fst (perform_statistical_tests S test_type w) = Inr rows"
    and "r \<in> set rows"
  shows "\<exists>i j p. i < j \<and> j < length (frame w) \<and> computed S test_type (frame w) (i, j) = Some p \<and>
           r = make_row (columns (frame w) ! i) (columns (frame w) ! j) p \<and>
           (Significance r = ''sig'' \<longleftrightarrow> float_lt p 0.05) \<and>
           (Significance r = ''nonsig'' \<longleftrightarrow> \<not> float_lt p 0.05) \<and>
           (\<forall>x. p = Finite x \<longrightarrow> (Significance r = ''sig'' \<longleftrightarrow> x < 0.05)) \<and>
           (p = Finite 0.05 \<longrightarrow> Significance r = ''nonsig'')"
proof -
  obtain i j p where o: "i < j" "j < length (frame w)" "computed S test_type (frame w) (i, j) = Some p"
      "r = make_row (columns (frame w) ! i) (columns (frame w) ! j) p"
    using row_origin[OF assms] by blast
  have "Significance r = significance_of p"
    by (simp add: o(4) make_row_def)
  then have "(Significance r = ''sig'' \<longleftrightarrow> float_lt p 0.05) \<and>
           (Significance r = ''nonsig'' \<longleftrightarrow> \<not> float_lt p 0.05) \<and>
           (\<forall>x. p = Finite x \<longrightarrow> (Significance r = ''sig'' \<longleftrightarrow> x < 0.05)) \<and>
           (p = Finite 0.05 \<longrightarrow> Significance r = ''nonsig'')"
    by (auto simp: significance_of_def float_lt_def)
  with o show ?thesis by blast
qed

text \<open>The runs on the two small frames, evaluated.\<close>

lemma two_column_run:
  "perform_statistical_tests demo_stats ''ttest'' two_column_world =
     (Inr [\<lparr>Comparison = ''A vs B'', P_value = ''0.0100000000'', Significance = ''sig''\<rparr>], two_column_world)"
  by code_simp

lemma constant_run:
  "perform_statistical_tests demo_stats ''ttest'' constant_world =
     (Inr [\<lparr>Comparison = ''A vs B'', P_value = ''nan'', Significance = ''nonsig''\<rparr>], constant_world)"
  by code_simp

theorem significance_flag_threshold_witness:
  "(''ttest'' = ''ttest'' \<or> ''ttest'' = ''mannwhitney'') \<and>
   distinct (columns (frame two_column_world)) \<and>
   fst (perform_statistical_tests demo_stats ''ttest'' two_column_world) =
     Inr [\<lparr>Comparison = ''A vs B'', P_value = ''0.0100000000'', Significance = ''sig''\<rparr>] \<and>
   (\<exists>i j p. i < j \<and> j < length (frame two_column_world) \<and>
      computed demo_stats ''ttest'' (frame two_column_world) (i, j) = Some p \<and>
      \<lparr>Comparison = ''A vs B'', P_value = ''0.0100000000'', Significance = ''sig''\<rparr> =
        make_row (columns (frame two_column_world) ! i) (columns (frame two_column_world) ! j) p \<and>
      float_lt p 0.05)"
proof -
  let ?r = "\<lparr>Comparison = ''A vs B'', P_value = ''0.0100000000'', Significance = ''sig''\<rparr>"
  have h1: "''ttest'' = ''ttest'' \<or> ''ttest'' = ''mannwhitney''" by simp
  have h2: "distinct (columns (frame two_column_world))"
    by (simp add: two_column_world_def columns_def)
  have h3: "fst (perform_statistical_tests demo_stats ''ttest'' two_column_world) = Inr [?r]"
    by (simp add: two_column_run)
  have h4: "?r \<in> set [?r]" by simp
  show ?thesis
    using h1 h2 h3 significance_flag_threshold [OF h1 h2 h3 h4] by auto
qed

text \<open>
  C1 as stated fails on the text of the flag: the row of a pair with raw p-value
  \<open>0.01 < 0.05\<close> carries \<^verbatim>\<open>sig\<close>, not \<^verbatim>\<open>significant\<close>.
\<close>

theorem significance_text_counterexample:
  "fst (perform_statistical_tests demo_stats ''ttest'' two_column_world) =
     Inr [make_row ''A'' ''B'' (Finite (1 / 100))] \<and>
   float_lt (Finite (1 / 100)) 0.05 \<and>
   Significance (make_row ''A'' ''B'' (Finite (1 / 100))) \<noteq> ''significant''"
proof -
  have "make_row ''A'' ''B'' (Finite (1 / 100)) =
        \<lparr>Comparison = ''A vs B'', P_value = ''0.0100000000'', Significance = ''sig''\<rparr>"
    by code_simp
  then show ?thesis
    by (simp add: two_column_run float_lt_def)
qed

text \<open>
  C2, as amended: the p-value field of every row is the \<^verbatim>\<open>.10f\<close> rendering of the raw
  p-value the routine returned for the pair. When that is a finite number between 0 and 1,
  the field is a run of digits, a point and exactly ten digits, and the number it denotes
  lies between 0 and 1, within \<open>5e-11\<close> of the raw value. Nothing checks the p-value: each
  pair for which the routine returns gets its row, whatever was returned, and NaN and the
  infinities are printed as \<^verbatim>\<open>nan\<close>, \<^verbatim>\<open>inf\<close> and \<^verbatim>\<open>-inf\<close>.
\<close>

theorem p_value_rendering:
  assumes "test_type = ''ttest'' \<or> test_type = ''mannwhitney''"
    and "distinct (columns (frame w))"
    and "fst (perform_statistical_tests S test_type w) = Inr rows"
  shows "(\<forall>r\<in>set rows. \<exists>i j p. i < j \<and> j < length (frame w) \<and>
            computed S test_type (frame w) (i, j) = Some p \<and> P_value r = format_10f p \<and>
            (\<forall>x. p = Finite x \<and> 0 \<le> x \<and> x \<le> 1 \<longrightarrow>
               (\<exists>ip fp. P_value r = ip @ ''.'' @ fp \<and> ip \<noteq> [] \<and>
                  (\<forall>c\<in>set (ip @ fp). is_digit c) \<and> length fp = 10 \<and>
                  0 \<le> fixed_point_value ip fp \<and> fixed_point_value ip fp \<le> 1 \<and>
                  \<bar>fixed_point_value ip fp - x\<bar> \<le> 1 / (2 * 10 ^ 10)))) \<and>
         (\<forall>i j p. i < j \<and> j < length (frame w) \<and> computed S test_type (frame w) (i, j) = Some p \<longrightarrow>
            (\<exists>r\<in>set rows. Comparison r = pair_label (frame w) (i, j) \<and> P_value r = format_10f p)) \<and>
         format_10f NaN = ''nan'' \<and> format_10f PosInf = ''inf'' \<and> format_10f NegInf = ''-inf''"
proof -
  have rows: "rows = List.map_filter (pair_row S test_type (frame w)) (index_pairs (length (frame w)))"
    using assms(3) unfolding perform_valid[OF assms(1,2)] by simp
  have 1: "\<exists>i j p. i < j \<and> j < length (frame w) \<and>
            computed S test_type (frame w) (i, j) = Some p \<and> P_value r = format_10f p \<and>
            (\<forall>x. p = Finite x \<and> 0 \<le> x \<and> x \<le> 1 \<longrightarrow>
               (\<exists>ip fp. P_value r = ip @ ''.'' @ fp \<and> ip \<noteq> [] \<and>
                  (\<forall>c\<in>set (ip @ fp). is_digit c) \<and> length fp = 10 \<and>
                  0 \<le> fixed_point_value ip fp \<and> fixed_point_value ip fp \<le> 1 \<and>
                  \<bar>fixed_point_value ip fp - x\<bar> \<le> 1 / (2 * 10 ^ 10)))"
    if r: "r \<in> set rows" for r
  proof -
    obtain i j p where o: "i < j" "j < length (frame w)" "computed S test_type (frame w) (i, j) = Some p"
        "r = make_row (columns (frame w) ! i) (columns (frame w) ! j) p"
      using row_origin[OF assms r] by blast
    have f: "P_value r = format_10f p" by (simp add: o(4) make_row_def)
    have "\<exists>ip fp. P_value r = ip @ ''.'' @ fp \<and> ip \<noteq> [] \<and>
                  (\<forall>c\<in>set (ip @ fp). is_digit c) \<and> length fp = 10 \<and>
                  0 \<le> fixed_point_value ip fp \<and> fixed_point_value ip fp \<le> 1 \<and>
                  \<bar>fixed_point_value ip fp - x\<bar> \<le> 1 / (2 * 10 ^ 10)"
      if "p = Finite x \<and> 0 \<le> x \<and> x \<le> 1" for x
      using format_10f_unit_interval[of x] that unfolding f by simp
    with o f show ?thesis by blast
  qed
  have 2: "\<exists>r\<in>set rows. Comparison r = pair_label (frame w) (i, j) \<and> P_value r = format_10f p"
    if "i < j \<and> j < length (frame w) \<and> computed S test_type (frame w) (i, j) = Some p" for i j p
  proof -
    have "(i, j) \<in> set (index_pairs (length (frame w)))"
      using that by (simp add: index_pairs_set)
    then have "make_row (columns (frame w) ! i) (columns (frame w) ! j) p \<in> set rows"
      using computed_row[of S test_type "frame w" i j p] that
      unfolding rows map_filter_set by blast
    then show ?thesis
      by (rule rev_bexI) (simp add: make_row_def pair_label_def)
  qed
  have 3: "format_10f NaN = ''nan'' \<and> format_10f PosInf = ''inf'' \<and> format_10f NegInf = ''-inf''"
    by (simp add: format_10f_def)
  from 1 2 3 show ?thesis by blast
qed

theorem p_value_rendering_witness:
  "(''ttest'' = ''ttest'' \<or> ''ttest'' = ''mannwhitney'') \<and>
   distinct (columns (frame two_column_world)) \<and>
   fst (perform_statistical_tests demo_stats ''ttest'' two_column_world) =
     Inr [\<lparr>Comparison = ''A vs B'', P_value = ''0.0100000000'', Significance = ''sig''\<rparr>] \<and>
   computed demo_stats ''ttest'' (frame two_column_world) (0, 1) = Some (Finite (1 / 100)) \<and>
   (0::real) \<le> 1 / 100 \<and> (1::real) / 100 \<le> 1 \<and>
   P_value \<lparr>Comparison = ''A vs B'', P_value = ''0.0100000000'', Significance = ''sig''\<rparr> =
     format_10f (Finite (1 / 100)) \<and>
   (\<exists>ip fp. P_value \<lparr>Comparison = ''A vs B'', P_value = ''0.0100000000'', Significance = ''sig''\<rparr> =
        ip @ ''.'' @ fp \<and> ip \<noteq> [] \<and>
      (\<forall>c\<in>set (ip @ fp). is_digit c) \<and> length fp = 10 \<and>
      0 \<le> fixed_point_value ip fp \<and> fixed_point_value ip fp \<le> 1 \<and>
      \<bar>fixed_point_value ip fp - 1 / 100\<bar> \<le> 1 / (2 * 10 ^ 10))"
proof -
  let ?r = "\<lparr>Comparison = ''A vs B'', P_value = ''0.0100000000'', Significance = ''sig''\<rparr>"
  have h1: "''ttest'' = ''ttest'' \<or> ''ttest'' = ''mannwhitney''" by simp
  have h2: "distinct (columns (frame two_column_world))"
    by (simp add: two_column_world_def columns_def)
  have h3: "fst (perform_statistical_tests demo_stats ''ttest'' two_column_world) = Inr [?r]"
    by (simp add: two_column_run)
  have h4: "computed demo_stats ''ttest'' (frame two_column_world) (0, 1) = Some (Finite (1 / 100))"
    by (simp add: computed_def insufficient_def sample_def dropna_def List.map_filter_simps
        routine_def demo_stats_def two_column_world_def)
  have h5: "(0::real) \<le> 1 / 100" and h6: "(1::real) / 100 \<le> 1" by simp_all
  have mem: "?r \<in> set [?r]" by (rule list.set_intros(1))
  note c = p_value_rendering [OF h1 h2 h3]
  from bspec [OF conjunct1 [OF c] mem]
  obtain i j p where o1: "i < j" and o2: "j < length (frame two_column_world)"
    and o3: "computed demo_stats ''ttest'' (frame two_column_world) (i, j) = Some p"
    and o4: "P_value ?r = format_10f p"
    and o5: "\<forall>x. p = Finite x \<and> 0 \<le> x \<and> x \<le> 1 \<longrightarrow>
               (\<exists>ip fp. P_value ?r = ip @ ''.'' @ fp \<and> ip \<noteq> [] \<and>
                  (\<forall>c\<in>set (ip @ fp). is_digit c) \<and> length fp = 10 \<and>
                  0 \<le> fixed_point_value ip fp \<and> fixed_point_value ip fp \<le> 1 \<and>
                  \<bar>fixed_point_value ip fp - x\<bar> \<le> 1 / (2 * 10 ^ 10))"
    by (elim exE conjE)
  have "length (frame two_column_world) = 2" by (simp add: two_column_world_def)
  with o1 o2 have ij: "i = 0" "j = 1" by simp_all
  from o3 h4 have p: "p = Finite (1 / 100)" unfolding ij by simp
  have pre: "p = Finite (1 / 100) \<and> (0::real) \<le> 1 / 100 \<and> (1::real) / 100 \<le> 1"
    by (rule conjI [OF p conjI [OF h5 h6]])
  note v = o5 [rule_format, OF pre]
  note f = o4 [unfolded p]
  show ?thesis
    by (rule conjI [OF h1 conjI [OF h2 conjI [OF h3 conjI [OF h4 conjI [OF h5 conjI [OF h6 conjI [OF f v]]]]]]])
qed

text \<open>
  C2 as stated fails when the routine answers NaN, as a t statistic \<open>0/0\<close> on two constant
  samples does: the pair is not left out, and its row carries \<^verbatim>\<open>nan\<close>, which has no ten
  decimals and denotes no number between 0 and 1.
\<close>

theorem nan_p_value_counterexample:
  "computed demo_stats ''ttest'' (frame constant_world) (0, 1) = Some NaN \<and>
   fst (perform_statistical_tests demo_stats ''ttest'' constant_world) =
     Inr [\<lparr>Comparison = ''A vs B'', P_value = ''nan'', Significance = ''nonsig''\<rparr>]"
proof -
  have "computed demo_stats ''ttest'' (frame constant_world) (0, 1) = Some NaN"
    by (simp add: computed_def insufficient_def sample_def dropna_def List.map_filter_simps
        routine_def demo_stats_def constant_world_def)
  then show ?thesis
    by (simp add: constant_run)
qed

subsection \<open>Two runs on the same frame; what a run changes\<close>

lemma body_same_frame:
  "same_frame s1 s2 \<Longrightarrow>
   rel_sum same_raise same_frame (body S test_type cols i j s1) (body S test_type cols i j s2)"
  by (cases s1; cases s2)
    (auto simp: same_frame_def same_raise_def body_def Let_def run_test_def format_and_append_def
      st_warning_def st_error_def split: sum.splits option.splits)

lemma for_each_same_frame:
  assumes "\<And>x s1 s2. same_frame s1 s2 \<Longrightarrow> rel_sum same_raise same_frame (f x s1) (f x s2)"
    and "same_frame s1 s2"
  shows "rel_sum same_raise same_frame (for_each f xs s1) (for_each f xs s2)"
  using assms(2)
proof (induction xs arbitrary: s1 s2)
  case Nil
  then show ?case by simp
next
  case (Cons x xs)
  have r: "rel_sum same_raise same_frame (f x s1) (f x s2)"
    by (rule assms(1)[OF Cons.prems])
  show ?case
  proof (cases "f x s1")
    case (Inl a)
    with r show ?thesis by (cases "f x s2") auto
  next
    case (Inr a)
    with r obtain b where "f x s2 = Inr b" "same_frame a b"
      by (cases "f x s2") auto
    with Inr Cons.IH[of a b] show ?thesis by simp
  qed
qed

text \<open>
  C7: two calls with the same frame and the same test type, against the same library
  routines, return the same table, rows and order alike (or raise the same exception),
  whatever Streamlit had shown before each call: nothing else enters the computation.
\<close>

theorem table_determined_by_inputs:
  assumes "frame w1 = frame w2" and "distinct (columns (frame w1))"
  shows "fst (perform_statistical_tests S test_type w1) = fst (perform_statistical_tests S test_type w2)"
proof -
  let ?l0 = "\<lparr>results = [], p_value = None\<rparr>"
  have "same_frame (?l0, w1) (?l0, w2)"
    using assms(1) by (simp add: same_frame_def)
  then have "rel_sum same_raise same_frame
      (for_each (\<lambda>(i, j). body S test_type (columns (frame w1)) i j) (index_pairs (length (columns (frame w1)))) (?l0, w1))
      (for_each (\<lambda>(i, j). body S test_type (columns (frame w1)) i j) (index_pairs (length (columns (frame w1)))) (?l0, w2))"
    by (intro for_each_same_frame) (auto simp: body_same_frame)
  then show ?thesis
    unfolding perform_statistical_tests_def outer_loop_flat assms(1)[symmetric]
    by (cases rule: rel_sum.cases) (auto simp: same_frame_def same_raise_def)
qed

theorem table_determined_by_inputs_witness:
  "frame demo_world = frame (demo_world\<lparr>streamlit := [Warning ''shown before'']\<rparr>) \<and>
   distinct (columns (frame demo_world)) \<and>
   fst (perform_statistical_tests demo_stats ''ttest'' demo_world) =
   fst (perform_statistical_tests demo_stats ''ttest'' (demo_world\<lparr>streamlit := [Warning ''shown before'']\<rparr>))"
proof -
  have h1: "frame demo_world = frame (demo_world\<lparr>streamlit := [Warning ''shown before'']\<rparr>)" by simp
  have h2: "distinct (columns (frame demo_world))"
    by (simp add: demo_world_def columns_def)
  show ?thesis
    by (rule conjI [OF h1 conjI [OF h2 table_determined_by_inputs [OF h1 h2]]])
qed

lemma messages_added_refl: "messages_added w w"
  unfolding messages_added_def by (rule exI[of _ "[]"]) simp

lemma messages_added_trans: "messages_added w1 w2 \<Longrightarrow> messages_added w2 w3 \<Longrightarrow> messages_added w1 w3"
  unfolding messages_added_def by (elim exE, rule_tac x="ms @ msa" in exI) simp

lemma messages_added_one: "messages_added w (w\<lparr>streamlit := streamlit w @ [m]\<rparr>)"
  unfolding messages_added_def by blast

lemma body_messages_added: "messages_added w (world_of (body S test_type cols i j (l, w)))"
  by (auto simp: world_of_def body_def Let_def run_test_def format_and_append_def
      st_warning_def st_error_def messages_added_refl messages_added_one
      split: sum.splits option.splits)

lemma for_each_messages_added:
  assumes "\<And>x l w. messages_added w (world_of (f x (l, w)))"
  shows "messages_added w (world_of (for_each f xs (l, w)))"
proof (induction xs arbitrary: l w)
  case Nil
  then show ?case by (simp add: world_of_def messages_added_refl)
next
  case (Cons x xs)
  show ?case
  proof (cases "f x (l, w)")
    case (Inl a)
    with assms[of w x l] show ?thesis by simp
  next
    case (Inr b)
    obtain l' w' where b: "b = (l', w')" by (cases b)
    from assms[of w x l] Inr b have "messages_added w w'" by (simp add: world_of_def)
    with Cons.IH[of w' l'] Inr b show ?thesis
      by (auto intro: messages_added_trans)
  qed
qed

text \<open>
  C9: after any call, ended or raised, the frame that was passed is as it was before, and
  the world differs from the one before only by messages added to what Streamlit shows.
\<close>

theorem input_frame_unchanged:
  assumes "distinct (columns (frame w))"
  shows "frame (snd (perform_statistical_tests S test_type w)) = frame w \<and>
   messages_added w (snd (perform_statistical_tests S test_type w))"
proof -
  let ?r = "for_each (\<lambda>(i, j). body S test_type (columns (frame w)) i j)
      (index_pairs (length (columns (frame w)))) (\<lparr>results = [], p_value = None\<rparr>, w)"
  have "messages_added w (world_of ?r)"
    by (rule for_each_messages_added) (auto simp: body_messages_added)
  moreover have "snd (perform_statistical_tests S test_type w) = world_of ?r"
    by (simp add: perform_statistical_tests_def outer_loop_flat world_of_def split: sum.splits prod.splits)
  ultimately have m: "messages_added w (snd (perform_statistical_tests S test_type w))" by simp
  then have "frame (snd (perform_statistical_tests S test_type w)) = frame w"
    by (auto simp: messages_added_def)
  with m show ?thesis by simp
qed

theorem input_frame_unchanged_witness:
  "distinct (columns (frame demo_world)) \<and>
   frame (snd (perform_statistical_tests demo_stats ''ttest'' demo_world)) = frame demo_world \<and>
   messages_added demo_world (snd (perform_statistical_tests demo_stats ''ttest'' demo_world))"
proof -
  have h: "distinct (columns (frame demo_world))"
    by (simp add: demo_world_def columns_def)
  show ?thesis
    by (rule conjI [OF h input_frame_unchanged [OF h]])
qed

subsection \<open>A test type that is neither of the two\<close>

lemma body_invalid:
  assumes tt: "test_type \<noteq> ''ttest''" "test_type \<noteq> ''mannwhitney''"
    and d: "distinct (columns data)" and i: "i < length data" and j: "j < length data"
    and w: "frame w = data" and l: "p_value l = None"
  shows "body S test_type (columns data) i j (l, w) =
           (if insufficient data (i, j)
            then Inr (l, w\<lparr>streamlit := streamlit w @ [skip_warning data (i, j)]\<rparr>)
            else Inl (UnboundLocalError, w))"
  using tt w l
  by (auto simp: body_def getitem_nth[OF d i] getitem_nth[OF d j] Let_def run_test_def
      format_and_append_def st_warning_def insufficient_def sample_def skip_warning_def)

lemma for_each_invalid:
  assumes step: "\<And>x w. x \<in> set xs \<Longrightarrow> frame w = data \<Longrightarrow>
      f x (l, w) = (if ok x then Inr (l, w\<lparr>streamlit := streamlit w @ [M x]\<rparr>) else Inl (e, w))"
    and w: "frame w = data"
  shows "for_each f xs (l, w) =
           (if \<forall>x\<in>set xs. ok x then Inr (l, w\<lparr>streamlit := streamlit w @ map M xs\<rparr>)
            else Inl (e, w\<lparr>streamlit := streamlit w @ map M (takeWhile ok xs)\<rparr>))"
  using assms
proof (induction xs arbitrary: w)
  case Nil
  then show ?case by simp
next
  case (Cons x xs)
  show ?case
  proof (cases "ok x")
    case True
    let ?w = "w\<lparr>streamlit := streamlit w @ [M x]\<rparr>"
    have 1: "f x (l, w) = Inr (l, ?w)"
      using Cons.prems(1)[of x w] Cons.prems(2) True by simp
    have "frame ?w = data" using Cons.prems(2) by simp
    from Cons.IH[OF _ this] Cons.prems(1)
    have "for_each f xs (l, ?w) =
           (if \<forall>x\<in>set xs. ok x then Inr (l, ?w\<lparr>streamlit := streamlit ?w @ map M xs\<rparr>)
            else Inl (e, ?w\<lparr>streamlit := streamlit ?w @ map M (takeWhile ok xs)\<rparr>))"
      by simp
    with 1 True show ?thesis by simp
  next
    case False
    then have "f x (l, w) = Inl (e, w)"
      using Cons.prems(1)[of x w] Cons.prems(2) by simp
    with False show ?thesis by simp
  qed
qed

text \<open>
  C10: with a test type other than \<^verbatim>\<open>ttest\<close> and \<^verbatim>\<open>mannwhitney\<close> no branch assigns
  \<^verbatim>\<open>p_value\<close>. The pairs short of data are skipped with their warning, and at the first
  pair whose two cleaned samples both have two values or more the formatting step reads
  the unbound variable: the call raises \<^verbatim>\<open>UnboundLocalError\<close> there, having shown the
  warnings of the pairs before it and nothing else. Only when every pair is short of data
  does the call return, with an empty table.
\<close>

theorem unknown_test_type_raises:
  assumes "test_type \<noteq> ''ttest''" and "test_type \<noteq> ''mannwhitney''"
    and "distinct (columns (frame w))"
  shows "perform_statistical_tests S test_type w =
           (if \<forall>p\<in>set (index_pairs (length (frame w))). insufficient (frame w) p
            then (Inr [], w\<lparr>streamlit := streamlit w @
                    map (skip_warning (frame w)) (index_pairs (length (frame w)))\<rparr>)
            else (Inl UnboundLocalError, w\<lparr>streamlit := streamlit w @
                    map (skip_warning (frame w))
                      (takeWhile (insufficient (frame w)) (index_pairs (length (frame w))))\<rparr>))"
proof -
  let ?data = "frame w"
  let ?ps = "index_pairs (length ?data)"
  let ?l0 = "\<lparr>results = [], p_value = None\<rparr>"
  have n: "length (columns ?data) = length ?data" by (simp add: columns_def)
  have "for_each (\<lambda>(i, j). body S test_type (columns ?data) i j) ?ps (?l0, w) =
           (if \<forall>x\<in>set ?ps. insufficient ?data x
            then Inr (?l0, w\<lparr>streamlit := streamlit w @ map (skip_warning ?data) ?ps\<rparr>)
            else Inl (UnboundLocalError,
                   w\<lparr>streamlit := streamlit w @ map (skip_warning ?data) (takeWhile (insufficient ?data) ?ps)\<rparr>))"
  proof (rule for_each_invalid)
    fix x and w' :: world
    assume x: "x \<in> set ?ps" and f: "frame w' = ?data"
    obtain i j where ij: "x = (i, j)" by (cases x)
    with x have "i < length ?data" "j < length ?data" by (auto simp: index_pairs_set)
    from body_invalid[OF assms this f, of ?l0 S]
    show "(case x of (i, j) \<Rightarrow> body S test_type (columns ?data) i j) (?l0, w') =
        (if insufficient ?data x
         then Inr (?l0, w'\<lparr>streamlit := streamlit w' @ [skip_warning ?data x]\<rparr>)
         else Inl (UnboundLocalError, w'))"
      by (simp add: ij)
  qed simp
  then show ?thesis
    by (simp add: perform_statistical_tests_def outer_loop_flat n)
qed

theorem unknown_test_type_raises_witness:
  "''anova'' \<noteq> ''ttest'' \<and> ''anova'' \<noteq> ''mannwhitney'' \<and> distinct (columns (frame demo_world)) \<and>
   perform_statistical_tests demo_stats ''anova'' demo_world =
     (Inl UnboundLocalError,
      demo_world\<lparr>streamlit := [Warning ''Skipping A vs B - not enough data points'']\<rparr>)"
proof -
  have h1: "''anova'' \<noteq> ''ttest''" by simp
  have h2: "''anova'' \<noteq> ''mannwhitney''" by simp
  have h3: "distinct (columns (frame demo_world))"
    by (simp add: demo_world_def columns_def)
  have ps: "index_pairs (length (frame demo_world)) =
      [(0, 1), (0, 2), (0, 3), (0, 4), (1, 2), (1, 3), (1, 4), (2, 3), (2, 4), (3, 4)]"
    by code_simp
  have a: "insufficient (frame demo_world) (0, 1)"
    by (simp add: demo_world_def insufficient_def sample_def dropna_def List.map_filter_simps)
  have b: "\<not> insufficient (frame demo_world) (0, 2)"
    by (simp add: demo_world_def insufficient_def sample_def dropna_def List.map_filter_simps)
  have c: "skip_warning (frame demo_world) (0, 1) = Warning ''Skipping A vs B - not enough data points''"
    by (simp add: skip_warning_def skip_text_def demo_world_def columns_def)
  have d: "streamlit demo_world = []" by (simp add: demo_world_def)
  have "perform_statistical_tests demo_stats ''anova'' demo_world =
     (Inl UnboundLocalError,
      demo_world\<lparr>streamlit := [Warning ''Skipping A vs B - not enough data points'']\<rparr>)"
    unfolding unknown_test_type_raises [OF h1 h2 h3] ps using a b c d by simp
  with h1 h2 h3 show ?thesis by simp
qed

subsection \<open>Two constant columns under the t-test\<close>

text \<open>
  C3, as amended: on the frame \<^verbatim>\<open>A=[1,1,1,1]\<close>, \<^verbatim>\<open>B=[1,1,1,1]\<close> the t-test run relays
  the library routine. If \<^verbatim>\<open>ttest_ind\<close> raises, the pair is skipped and the message
  \<^verbatim>\<open>Error in t-test between A and B: <text of the exception>\<close> is shown; if it returns a
  p-value, nothing is shown and the table is the one row \<^verbatim>\<open>A vs B\<close> with that p-value
  formatted, which for 1.0 is \<^verbatim>\<open>1.0000000000\<close>. With the answer the library gives for a
  zero variance, NaN, the table is the one row \<^verbatim>\<open>A vs B\<close>, \<^verbatim>\<open>nan\<close>, \<^verbatim>\<open>nonsig\<close>.
\<close>

theorem constant_columns_outcome:
  "perform_statistical_tests S ''ttest'' constant_world =
     (case ttest_ind S [1, 1, 1, 1] [1, 1, 1, 1] of
        Inl e \<Rightarrow> (Inr [], constant_world\<lparr>streamlit := [Error (''Error in t-test between A and B: '' @ e)]\<rparr>)
      | Inr p \<Rightarrow> (Inr [\<lparr>Comparison = ''A vs B'', P_value = format_10f p,
                         Significance = (if float_lt p 0.05 then ''sig'' else ''nonsig'')\<rparr>],
                  constant_world)) \<and>
   perform_statistical_tests (nan_on_zero_variance S) ''ttest'' constant_world =
     (Inr [\<lparr>Comparison = ''A vs B'', P_value = ''nan'', Significance = ''nonsig''\<rparr>], constant_world) \<and>
   format_10f (Finite 1) = ''1.0000000000''"
proof -
  have d: "distinct (columns (frame constant_world))"
    by (simp add: constant_world_def columns_def)
  have ps: "index_pairs (length (frame constant_world)) = [(0, 1)]"
    by code_simp
  have run: "perform_statistical_tests S' ''ttest'' constant_world =
     (case ttest_ind S' [1, 1, 1, 1] [1, 1, 1, 1] of
        Inl e \<Rightarrow> (Inr [], constant_world\<lparr>streamlit := [Error (''Error in t-test between A and B: '' @ e)]\<rparr>)
      | Inr p \<Rightarrow> (Inr [\<lparr>Comparison = ''A vs B'', P_value = format_10f p,
                         Significance = (if float_lt p 0.05 then ''sig'' else ''nonsig'')\<rparr>],
                  constant_world))" for S'
    unfolding perform_valid [OF disjI1 [OF refl] d] ps
    by (simp add: constant_world_def List.map_filter_simps pair_row_def pair_messages_def computed_def
        insufficient_def sample_def dropna_def routine_def error_text_def columns_def
        make_row_def comparison_label_def significance_of_def ttest_error_text_def
        split: sum.splits)
  have nan: "ttest_ind (nan_on_zero_variance S) [1, 1, 1, 1] [1, 1, 1, 1] = Inr NaN"
    by (simp add: nan_on_zero_variance_def zero_variance_def)
  have one: "format_10f (Finite 1) = ''1.0000000000''"
    by code_simp
  have "perform_statistical_tests (nan_on_zero_variance S) ''ttest'' constant_world =
     (Inr [\<lparr>Comparison = ''A vs B'', P_value = ''nan'', Significance = ''nonsig''\<rparr>], constant_world)"
    unfolding run nan by (simp add: format_10f_def float_lt_def)
  with run [of S] one show ?thesis by simp
qed

theorem constant_columns_outcome_witness:
  "perform_statistical_tests (nan_on_zero_variance demo_stats) ''ttest'' constant_world =
     (Inr [\<lparr>Comparison = ''A vs B'', P_value = ''nan'', Significance = ''nonsig''\<rparr>], constant_world) \<and>
   ttest_ind (nan_on_zero_variance demo_stats) [1, 1, 1, 1] [1, 1, 1, 1] = Inr NaN"
proof -
  have "ttest_ind (nan_on_zero_variance demo_stats) [1, 1, 1, 1] [1, 1, 1, 1] = Inr NaN"
    by (simp add: nan_on_zero_variance_def zero_variance_def)
  with conjunct1 [OF conjunct2 [OF constant_columns_outcome [of demo_stats]]] show ?thesis
    by (rule conjI)
qed

text \<open>
  C3 as stated fails with the library's answer for a zero variance: the pair is not
  skipped and no message is shown, and the p-value of its row is \<^verbatim>\<open>nan\<close>, not the
  rendering of 1.0.
\<close>

theorem constant_columns_counterexample:
  "fst (perform_statistical_tests (nan_on_zero_variance demo_stats) ''ttest'' constant_world) =
     Inr [\<lparr>Comparison = ''A vs B'', P_value = ''nan'', Significance = ''nonsig''\<rparr>] \<and>
   streamlit (snd (perform_statistical_tests (nan_on_zero_variance demo_stats) ''ttest'' constant_world)) = [] \<and>
   P_value \<lparr>Comparison = ''A vs B'', P_value = ''nan'', Significance = ''nonsig''\<rparr> \<noteq> format_10f (Finite 1)"
proof -
  have "perform_statistical_tests (nan_on_zero_variance demo_stats) ''ttest'' constant_world =
     (Inr [\<lparr>Comparison = ''A vs B'', P_value = ''nan'', Significance = ''nonsig''\<rparr>], constant_world)"
    by code_simp
  moreover have "format_10f (Finite 1) = ''1.0000000000''"
    by code_simp
  ultimately show ?thesis
    by (simp add: constant_world_def)
qed

end
